theory Spec2Isabelle
  imports Main "HOL-Library.Sublist"
begin

section \<open>The project initializer of cli-standard-kit\<close>

text \<open>
  The source is \<^verbatim>\<open>src/cli_standard_kit/init_project.py\<close>: the helper \<^verbatim>\<open>run\<close>
  and the entry point \<^verbatim>\<open>run_init\<close>. Everything the script does is an effect on
  its surroundings (lines on standard output, shell commands, one change of directory),
  so the model threads a process state through the statements and records every effect
  in a trace. What the surroundings answer (the exit status of a command, whether a
  directory can be entered) is a parameter of the model.

  Strings are byte strings: a Python \<^verbatim>\<open>str\<close> is modelled by its UTF-8 encoding, under
  which an f-string is concatenation. The icons of the messages are written as their
  UTF-8 bytes.
\<close>

subsection \<open>Effects, exceptions and the process state\<close>

datatype event =
    Print string
  | Shell string string
  | Chdir string string

text \<open>
  \<^item> \<open>Print l\<close>: \<^verbatim>\<open>print\<close> wrote the line \<open>l\<close> (without its final newline) to
    standard output;
  \<^item> \<open>Shell d c\<close>: \<^verbatim>\<open>subprocess.run(c, shell=True, ...)\<close> ran \<^verbatim>\<open>/bin/sh -c c\<close>
    while the working directory was \<open>d\<close>;
  \<^item> \<open>Chdir d p\<close>: \<^verbatim>\<open>os.chdir(p)\<close> was called while the working directory was \<open>d\<close>.
\<close>

datatype exc =
    SystemExit int
  | CalledProcessError int string
  | OSError string
  | IndexError

record proc =
  argv :: "string list"
  cwd :: string
  trace :: "event list"

text \<open>
  The surroundings of the process: \<open>returncode w tr d c\<close> is the exit status of the
  shell command \<open>c\<close> started in directory \<open>d\<close> after the effects \<open>tr\<close>, and
  \<open>chdir_result w tr d p\<close> is the absolute path of the directory that \<^verbatim>\<open>os.chdir(p)\<close>
  enters from \<open>d\<close> after \<open>tr\<close>, or \<open>None\<close> when the call raises \<^verbatim>\<open>OSError\<close>.
\<close>

record os =
  returncode :: "event list \<Rightarrow> string \<Rightarrow> string \<Rightarrow> int"
  chdir_result :: "event list \<Rightarrow> string \<Rightarrow> string \<Rightarrow> string option"

type_synonym 'a py = "proc \<Rightarrow> (exc + 'a) \<times> proc"

definition ret :: "'a \<Rightarrow> 'a py" where
  "ret x = (\<lambda>s. (Inr x, s))"

definition raise :: "exc \<Rightarrow> 'a py" where
  "raise e = (\<lambda>s. (Inl e, s))"

definition and_then :: "'a py \<Rightarrow> ('a \<Rightarrow> 'b py) \<Rightarrow> 'b py" where
  "and_then f g = (\<lambda>s. case f s of (Inl e, s') \<Rightarrow> (Inl e, s') | (Inr x, s') \<Rightarrow> g x s')"

definition seq :: "unit py \<Rightarrow> 'a py \<Rightarrow> 'a py" where
  "seq f g = and_then f (\<lambda>_. g)"

subsection \<open>The library calls the script makes\<close>

definition emit :: "event \<Rightarrow> unit py" where
  "emit e = (\<lambda>s. (Inr (), s\<lparr>trace := trace s @ [e]\<rparr>))"

definition py_print :: "string \<Rightarrow> unit py" where
  "py_print l = emit (Print l)"

definition sys_exit :: "int \<Rightarrow> 'a py" where
  "sys_exit n = raise (SystemExit n)"

definition sys_argv :: "string list py" where
  "sys_argv = (\<lambda>s. (Inr (argv s), s))"

definition sys_argv_at :: "nat \<Rightarrow> string py" where
  "sys_argv_at i = (\<lambda>s. if i < length (argv s) then (Inr (argv s ! i), s) else (Inl IndexError, s))"

definition os_getcwd :: "string py" where
  "os_getcwd = (\<lambda>s. (Inr (cwd s), s))"

definition os_chdir :: "os \<Rightarrow> string \<Rightarrow> unit py" where
  "os_chdir w p = (\<lambda>s.
     let s' = s\<lparr>trace := trace s @ [Chdir (cwd s) p]\<rparr> in
     case chdir_result w (trace s) (cwd s) p of
       None \<Rightarrow> (Inl (OSError p), s')
     | Some d \<Rightarrow> (Inr (), s'\<lparr>cwd := d\<rparr>))"

text \<open>\<^verbatim>\<open>subprocess.run(cmd, shell=True, check=True)\<close>: a non-zero status raises.\<close>

definition subprocess_run :: "os \<Rightarrow> string \<Rightarrow> unit py" where
  "subprocess_run w cmd = (\<lambda>s.
     let rc = returncode w (trace s) (cwd s) cmd;
         s' = s\<lparr>trace := trace s @ [Shell (cwd s) cmd]\<rparr>
     in if rc \<noteq> 0 then (Inl (CalledProcessError rc cmd), s') else (Inr (), s'))"

subsection \<open>The strings of the script\<close>

abbreviation (input) sq :: char where
  "sq \<equiv> CHR 0x27"

definition icon_run :: string where
  "icon_run = [CHR 0xE2, CHR 0x96, CHR 0xB6]"

definition icon_cross :: string where
  "icon_cross = [CHR 0xE2, CHR 0x9D, CHR 0x8C]"

definition icon_rocket :: string where
  "icon_rocket = [CHR 0xF0, CHR 0x9F, CHR 0x9A, CHR 0x80]"

definition icon_folder :: string where
  "icon_folder = [CHR 0xF0, CHR 0x9F, CHR 0x93, CHR 0x81]"

definition icon_snake :: string where
  "icon_snake = [CHR 0xF0, CHR 0x9F, CHR 0x90, CHR 0x8D]"

definition icon_check :: string where
  "icon_check = [CHR 0xE2, CHR 0x9C, CHR 0x85]"

definition icon_package :: string where
  "icon_package = [CHR 0xF0, CHR 0x9F, CHR 0x93, CHR 0xA6]"

definition icon_arrow :: string where
  "icon_arrow = [CHR 0xE2, CHR 0x9E, CHR 0xA1]"

definition usage_msg :: string where
  "usage_msg = icon_cross @ '' Usage: cli-standard-kit init <project_name>''"

definition creating_msg :: "string \<Rightarrow> string" where
  "creating_msg project_name = icon_rocket @ '' Creating new CLI project: '' @ project_name"

definition cookiecutter_cmd :: "string \<Rightarrow> string" where
  "cookiecutter_cmd project_name =
     ''cookiecutter gh:c3nk/cookiecutter-cli-standard-kit --no-input '' @
     ''project_name='' @ [sq] @ project_name @ [sq] @
     '' project_slug='' @ [sq] @ project_name @ [sq]"

definition entered_msg :: "string \<Rightarrow> string" where
  "entered_msg d = icon_folder @ '' Entered:'' @ '' '' @ d"

definition git_init_cmd :: string where
  "git_init_cmd = ''git init -q && git add . && git commit -m '' @ [sq] @ ''init project'' @ [sq]"

definition git_branch_cmd :: string where
  "git_branch_cmd = ''git branch -M main''"

definition venv_msg :: string where
  "venv_msg = icon_snake @ '' Creating virtual environment (.venv)...''"

definition venv_cmd :: string where
  "venv_cmd = ''python3 -m venv .venv''"

definition venv_done_msg :: string where
  "venv_done_msg = icon_check @ '' Virtual environment created.''"

definition ready_msg :: string where
  "ready_msg = [CHR 0x0A] @ icon_package @ '' Project ready!''"

definition hint_msg :: "string \<Rightarrow> string" where
  "hint_msg project_name =
     icon_arrow @ '' cd '' @ project_name @
     '' && source .venv/bin/activate && python src/'' @ project_name @ ''/cli.py --help''"

subsection \<open>\<^verbatim>\<open>run\<close> and \<^verbatim>\<open>run_init\<close>\<close>

definition run :: "os \<Rightarrow> string \<Rightarrow> unit py" where
  "run w cmd = seq (py_print (icon_run @ '' '' @ cmd)) (subprocess_run w cmd)"

definition run_init :: "os \<Rightarrow> unit py" where
  "run_init w =
     seq (and_then sys_argv (\<lambda>av.
            if length av < 2
            then seq (py_print usage_msg) (sys_exit 1)
            else ret ()))
    (and_then (sys_argv_at 1) (\<lambda>project_name.
     seq (py_print (creating_msg project_name))
    (seq (run w (cookiecutter_cmd project_name))
    (seq (os_chdir w project_name)
    (seq (and_then os_getcwd (\<lambda>d. py_print (entered_msg d)))
    (seq (run w git_init_cmd)
    (seq (run w git_branch_cmd)
    (seq (py_print venv_msg)
    (seq (run w venv_cmd)
    (seq (py_print venv_done_msg)
    (seq (py_print ready_msg)
         (py_print (hint_msg project_name)))))))))))))"

text \<open>
  Assumptions of the model, none of which the script guards against: a \<^verbatim>\<open>print\<close>
  always succeeds, \<^verbatim>\<open>os.getcwd()\<close> reads the working directory the process is in,
  and \<^verbatim>\<open>subprocess.run\<close> raises nothing but \<^verbatim>\<open>CalledProcessError\<close>.
  \<^verbatim>\<open>run_init\<close> never passes keyword arguments to \<^verbatim>\<open>run\<close>, so they are left out.

  The process as the interpreter starts it: nothing has happened yet.
\<close>

definition start :: "string list \<Rightarrow> string \<Rightarrow> proc" where
  "start av d = \<lparr>argv = av, cwd = d, trace = []\<rparr>"

subsection \<open>How the interpreter ends the process\<close>

text \<open>
  \<^verbatim>\<open>run_init\<close> is the whole program. When it returns, the process ends with status 0.
  An uncaught \<^verbatim>\<open>SystemExit(n)\<close> ends it with status \<open>n\<close> and prints nothing. Any other
  uncaught exception makes the interpreter print a stack trace on standard error and end
  the process with status 1, whatever the exception carries.
\<close>

definition exit_status :: "exc + unit \<Rightarrow> int" where
  "exit_status r = (case r of Inr _ \<Rightarrow> 0 | Inl (SystemExit n) \<Rightarrow> n | Inl _ \<Rightarrow> 1)"


subsection \<open>The effects of a complete run, in order\<close>

text \<open>
  \<open>script project_name d0 d\<close> lists what a run that started in directory \<open>d0\<close> and
  entered the directory \<open>d\<close> does when nothing fails, statement by statement. Counting
  from 0, the cookiecutter command is at position 2, the change of directory at 3, the two
  git commands at 6 and 8 and the virtual environment command at 11. The effects that
  precede the action at position \<open>k\<close> are \<open>take k (script project_name d0 d)\<close>: this is
  the history the surroundings are asked with when that action is performed. The first
  four entries do not depend on \<open>d\<close>.
\<close>

definition script :: "string \<Rightarrow> string \<Rightarrow> string \<Rightarrow> event list" where
  "script project_name d0 d =
     [Print (creating_msg project_name),
      Print (icon_run @ '' '' @ cookiecutter_cmd project_name),
      Shell d0 (cookiecutter_cmd project_name),
      Chdir d0 project_name,
      Print (entered_msg d),
      Print (icon_run @ '' '' @ git_init_cmd),
      Shell d git_init_cmd,
      Print (icon_run @ '' '' @ git_branch_cmd),
      Shell d git_branch_cmd,
      Print venv_msg,
      Print (icon_run @ '' '' @ venv_cmd),
      Shell d venv_cmd,
      Print venv_done_msg,
      Print ready_msg,
      Print (hint_msg project_name)]"

text \<open>
  \<open>answer_ok w d pre e\<close>: performed after the effects \<open>pre\<close>, the action \<open>e\<close> does not
  raise (a command exits with status 0, a change of directory enters \<open>d\<close>).
  \<open>all_ok w d pre es\<close>: the actions \<open>es\<close>, performed one after the other from \<open>pre\<close> on,
  all succeed.
\<close>

fun answer_ok :: "os \<Rightarrow> string \<Rightarrow> event list \<Rightarrow> event \<Rightarrow> bool" where
  "answer_ok w d pre (Print l) = True"
| "answer_ok w d pre (Shell d' c) = (returncode w pre d' c = 0)"
| "answer_ok w d pre (Chdir d' p) = (chdir_result w pre d' p = Some d)"

fun all_ok :: "os \<Rightarrow> string \<Rightarrow> event list \<Rightarrow> event list \<Rightarrow> bool" where
  "all_ok w d pre [] = True"
| "all_ok w d pre (e # es) = (answer_ok w d pre e \<and> all_ok w d (pre @ [e]) es)"

text \<open>The actions on the surroundings, as opposed to output.\<close>

fun external :: "event \<Rightarrow> bool" where
  "external (Print l) = False"
| "external (Shell d c) = True"
| "external (Chdir d p) = True"

fun is_chdir :: "event \<Rightarrow> bool" where
  "is_chdir (Chdir d p) = True"
| "is_chdir e = False"

fun is_cookiecutter :: "event \<Rightarrow> bool" where
  "is_cookiecutter (Shell d c) = prefix ''cookiecutter '' c"
| "is_cookiecutter e = False"

subsection \<open>What the shell makes of a command string\<close>

text \<open>
  With \<^verbatim>\<open>shell=True\<close> the command string is read by \<^verbatim>\<open>/bin/sh\<close>. The commands of the
  script use three features of its grammar: blanks separate words, a single quote starts
  a literal that runs to the next single quote, and \<^verbatim>\<open>&&\<close> joins simple commands. The
  lexer below reads this fragment and nothing else. Its answer is \<open>Reads x\<close> when the
  command lies in the fragment, and then \<open>x\<close> is what the shell makes of it. On any other
  unquoted special character (a \<^verbatim>\<open>$\<close>, a backquote, a backslash, a double quote, another
  operator), on a quote that is not closed and on an and-list with an empty command the
  answer is \<open>Not_modelled\<close>: the shell may expand, go on or refuse there, and this theory
  says nothing about such a command.
\<close>

datatype 'a reading = Reads 'a | Not_modelled

datatype token = Word string | AndIf

definition sh_special :: string where
  "sh_special = ''|;<>()$*?[#~'' @ [CHR 0x60, CHR 0x5C, CHR 0x22, CHR 0x0A]"

fun flush :: "string option \<Rightarrow> token list" where
  "flush None = []"
| "flush (Some v) = [Word v]"

fun pending :: "string option \<Rightarrow> string" where
  "pending None = []"
| "pending (Some v) = v"

fun prepend :: "token list \<Rightarrow> token list reading \<Rightarrow> token list reading" where
  "prepend ts (Reads us) = Reads (ts @ us)"
| "prepend ts Not_modelled = Not_modelled"

fun lex_plain :: "string option \<Rightarrow> string \<Rightarrow> token list reading"
  and lex_quoted :: "string \<Rightarrow> string \<Rightarrow> token list reading" where
  "lex_plain w [] = Reads (flush w)"
| "lex_plain w (c # cs) =
     (if c = sq then lex_quoted (pending w) cs
      else if c = CHR '' '' \<or> c = CHR 0x09
        then prepend (flush w) (lex_plain None cs)
      else if c = CHR ''&''
        then (case cs of
                [] \<Rightarrow> Not_modelled
              | c' # cs' \<Rightarrow>
                  if c' = CHR ''&''
                  then prepend (flush w @ [AndIf]) (lex_plain None cs')
                  else Not_modelled)
      else if c \<in> set sh_special then Not_modelled
      else lex_plain (Some (pending w @ [c])) cs)"
| "lex_quoted v [] = Not_modelled"
| "lex_quoted v (c # cs) =
     (if c = sq then lex_plain (Some v) cs else lex_quoted (v @ [c]) cs)"

fun and_list :: "token list \<Rightarrow> string list list" where
  "and_list [] = [[]]"
| "and_list (Word v # ts) = (case and_list ts of [] \<Rightarrow> [[v]] | c # cs \<Rightarrow> (v # c) # cs)"
| "and_list (AndIf # ts) = [] # and_list ts"

text \<open>
  \<open>shell_commands c\<close>: the simple commands of the and-list \<open>c\<close>, each as its words.
  \<open>shell_words c\<close>: the words of \<open>c\<close> when it is one simple command, which are the
  argument vector of the program it starts. Both answer \<open>Not_modelled\<close> where the lexer
  does.
\<close>

definition shell_commands :: "string \<Rightarrow> string list list reading" where
  "shell_commands c =
     (case lex_plain None c of
        Not_modelled \<Rightarrow> Not_modelled
      | Reads ts \<Rightarrow> if [] \<in> set (and_list ts) then Not_modelled else Reads (and_list ts))"

definition shell_words :: "string \<Rightarrow> string list reading" where
  "shell_words c = (case shell_commands c of Reads [ws] \<Rightarrow> Reads ws | _ \<Rightarrow> Not_modelled)"

text \<open>
  The argument vector the specification describes for the template engine: the project
  name as the value of both template variables, and the non-interactive flag.
\<close>

definition spec_cookiecutter_argv :: "string \<Rightarrow> string list" where
  "spec_cookiecutter_argv project_name =
     [''cookiecutter'', ''gh:c3nk/cookiecutter-cli-standard-kit'', ''--no-input'',
      ''project_name='' @ project_name, ''project_slug='' @ project_name]"

subsection \<open>Surroundings to run the model in\<close>

text \<open>
  \<open>os_ok\<close>: every command succeeds, and a directory named by a non-empty relative path
  exists below the current one. \<open>os_exit c n\<close>: the same, except that the command \<open>c\<close>
  exits with status \<open>n\<close>. \<open>os_no_dir\<close>: every command succeeds and no directory can be
  entered.
\<close>

definition os_ok :: os where
  "os_ok = \<lparr>returncode = (\<lambda>tr d c. 0),
            chdir_result = (\<lambda>tr d p. if p = [] then None else Some (d @ ''/'' @ p))\<rparr>"

definition os_exit :: "string \<Rightarrow> int \<Rightarrow> os" where
  "os_exit c n = os_ok\<lparr>returncode := (\<lambda>tr d c'. if c' = c then n else 0)\<rparr>"

definition os_no_dir :: os where
  "os_no_dir = os_ok\<lparr>chdir_result := (\<lambda>tr d p. None)\<rparr>"

section \<open>Properties\<close>

subsection \<open>The outcomes of a run\<close>

lemmas py_defs = ret_def raise_def and_then_def seq_def emit_def py_print_def sys_exit_def
  sys_argv_def sys_argv_at_def os_getcwd_def os_chdir_def subprocess_run_def run_def

lemma usage_outcome:
  assumes "length av < 2"
  shows "run_init w (start av d0) =
           (Inl (SystemExit 1), \<lparr>argv = av, cwd = d0, trace = [Print usage_msg]\<rparr>)"
  using assms by (simp add: run_init_def py_defs start_def)

lemma cookiecutter_fails:
  assumes "2 \<le> length av"
    and "returncode w (take 2 (script (av ! 1) d0 d)) d0 (cookiecutter_cmd (av ! 1)) = rc"
    and "rc \<noteq> 0"
  shows "run_init w (start av d0) =
           (Inl (CalledProcessError rc (cookiecutter_cmd (av ! 1))),
            \<lparr>argv = av, cwd = d0, trace = take 3 (script (av ! 1) d0 d)\<rparr>)"
  using assms by (simp add: run_init_def py_defs start_def script_def)

lemma chdir_fails:
  assumes "2 \<le> length av"
    and "returncode w (take 2 (script (av ! 1) d0 d)) d0 (cookiecutter_cmd (av ! 1)) = 0"
    and "chdir_result w (take 3 (script (av ! 1) d0 d)) d0 (av ! 1) = None"
  shows "run_init w (start av d0) =
           (Inl (OSError (av ! 1)),
            \<lparr>argv = av, cwd = d0, trace = take 4 (script (av ! 1) d0 d)\<rparr>)"
  using assms by (simp add: run_init_def py_defs start_def script_def)

lemma git_init_fails:
  assumes "2 \<le> length av"
    and "returncode w (take 2 (script (av ! 1) d0 d)) d0 (cookiecutter_cmd (av ! 1)) = 0"
    and "chdir_result w (take 3 (script (av ! 1) d0 d)) d0 (av ! 1) = Some d"
    and "returncode w (take 6 (script (av ! 1) d0 d)) d git_init_cmd = rc"
    and "rc \<noteq> 0"
  shows "run_init w (start av d0) =
           (Inl (CalledProcessError rc git_init_cmd),
            \<lparr>argv = av, cwd = d, trace = take 7 (script (av ! 1) d0 d)\<rparr>)"
  using assms by (simp add: run_init_def py_defs start_def script_def)

lemma git_branch_fails:
  assumes "2 \<le> length av"
    and "returncode w (take 2 (script (av ! 1) d0 d)) d0 (cookiecutter_cmd (av ! 1)) = 0"
    and "chdir_result w (take 3 (script (av ! 1) d0 d)) d0 (av ! 1) = Some d"
    and "returncode w (take 6 (script (av ! 1) d0 d)) d git_init_cmd = 0"
    and "returncode w (take 8 (script (av ! 1) d0 d)) d git_branch_cmd = rc"
    and "rc \<noteq> 0"
  shows "run_init w (start av d0) =
           (Inl (CalledProcessError rc git_branch_cmd),
            \<lparr>argv = av, cwd = d, trace = take 9 (script (av ! 1) d0 d)\<rparr>)"
  using assms by (simp add: run_init_def py_defs start_def script_def)

lemma venv_fails:
  assumes "2 \<le> length av"
    and "returncode w (take 2 (script (av ! 1) d0 d)) d0 (cookiecutter_cmd (av ! 1)) = 0"
    and "chdir_result w (take 3 (script (av ! 1) d0 d)) d0 (av ! 1) = Some d"
    and "returncode w (take 6 (script (av ! 1) d0 d)) d git_init_cmd = 0"
    and "returncode w (take 8 (script (av ! 1) d0 d)) d git_branch_cmd = 0"
    and "returncode w (take 11 (script (av ! 1) d0 d)) d venv_cmd = rc"
    and "rc \<noteq> 0"
  shows "run_init w (start av d0) =
           (Inl (CalledProcessError rc venv_cmd),
            \<lparr>argv = av, cwd = d, trace = take 12 (script (av ! 1) d0 d)\<rparr>)"
  using assms by (simp add: run_init_def py_defs start_def script_def)

lemma all_succeed:
  assumes "2 \<le> length av"
    and "returncode w (take 2 (script (av ! 1) d0 d)) d0 (cookiecutter_cmd (av ! 1)) = 0"
    and "chdir_result w (take 3 (script (av ! 1) d0 d)) d0 (av ! 1) = Some d"
    and "returncode w (take 6 (script (av ! 1) d0 d)) d git_init_cmd = 0"
    and "returncode w (take 8 (script (av ! 1) d0 d)) d git_branch_cmd = 0"
    and "returncode w (take 11 (script (av ! 1) d0 d)) d venv_cmd = 0"
  shows "run_init w (start av d0) =
           (Inr (), \<lparr>argv = av, cwd = d, trace = script (av ! 1) d0 d\<rparr>)"
  using assms by (simp add: run_init_def py_defs start_def script_def)

lemma run_init_cases [consumes 2, case_names cookiecutter chdir git_init git_branch venv complete]:
  assumes "2 \<le> length av" and "run_init w (start av d0) = (r, s)"
  obtains
    rc where "rc \<noteq> 0"
      and "returncode w (take 2 (script (av ! 1) d0 d0)) d0 (cookiecutter_cmd (av ! 1)) = rc"
      and "r = Inl (CalledProcessError rc (cookiecutter_cmd (av ! 1)))"
      and "s = \<lparr>argv = av, cwd = d0, trace = take 3 (script (av ! 1) d0 d0)\<rparr>"
  | "returncode w (take 2 (script (av ! 1) d0 d0)) d0 (cookiecutter_cmd (av ! 1)) = 0"
      and "chdir_result w (take 3 (script (av ! 1) d0 d0)) d0 (av ! 1) = None"
      and "r = Inl (OSError (av ! 1))"
      and "s = \<lparr>argv = av, cwd = d0, trace = take 4 (script (av ! 1) d0 d0)\<rparr>"
  | d rc where "rc \<noteq> 0"
      and "returncode w (take 2 (script (av ! 1) d0 d)) d0 (cookiecutter_cmd (av ! 1)) = 0"
      and "chdir_result w (take 3 (script (av ! 1) d0 d)) d0 (av ! 1) = Some d"
      and "returncode w (take 6 (script (av ! 1) d0 d)) d git_init_cmd = rc"
      and "r = Inl (CalledProcessError rc git_init_cmd)"
      and "s = \<lparr>argv = av, cwd = d, trace = take 7 (script (av ! 1) d0 d)\<rparr>"
  | d rc where "rc \<noteq> 0"
      and "returncode w (take 2 (script (av ! 1) d0 d)) d0 (cookiecutter_cmd (av ! 1)) = 0"
      and "chdir_result w (take 3 (script (av ! 1) d0 d)) d0 (av ! 1) = Some d"
      and "returncode w (take 6 (script (av ! 1) d0 d)) d git_init_cmd = 0"
      and "returncode w (take 8 (script (av ! 1) d0 d)) d git_branch_cmd = rc"
      and "r = Inl (CalledProcessError rc git_branch_cmd)"
      and "s = \<lparr>argv = av, cwd = d, trace = take 9 (script (av ! 1) d0 d)\<rparr>"
  | d rc where "rc \<noteq> 0"
      and "returncode w (take 2 (script (av ! 1) d0 d)) d0 (cookiecutter_cmd (av ! 1)) = 0"
      and "chdir_result w (take 3 (script (av ! 1) d0 d)) d0 (av ! 1) = Some d"
      and "returncode w (take 6 (script (av ! 1) d0 d)) d git_init_cmd = 0"
      and "returncode w (take 8 (script (av ! 1) d0 d)) d git_branch_cmd = 0"
      and "returncode w (take 11 (script (av ! 1) d0 d)) d venv_cmd = rc"
      and "r = Inl (CalledProcessError rc venv_cmd)"
      and "s = \<lparr>argv = av, cwd = d, trace = take 12 (script (av ! 1) d0 d)\<rparr>"
  | d where
      "returncode w (take 2 (script (av ! 1) d0 d)) d0 (cookiecutter_cmd (av ! 1)) = 0"
      and "chdir_result w (take 3 (script (av ! 1) d0 d)) d0 (av ! 1) = Some d"
      and "returncode w (take 6 (script (av ! 1) d0 d)) d git_init_cmd = 0"
      and "returncode w (take 8 (script (av ! 1) d0 d)) d git_branch_cmd = 0"
      and "returncode w (take 11 (script (av ! 1) d0 d)) d venv_cmd = 0"
      and "r = Inr ()"
      and "s = \<lparr>argv = av, cwd = d, trace = script (av ! 1) d0 d\<rparr>"
proof (cases "returncode w (take 2 (script (av ! 1) d0 d0)) d0 (cookiecutter_cmd (av ! 1)) = 0")
  case False
  from cookiecutter_fails [OF assms(1) refl False] assms(2) False that(1) show ?thesis
    by simp
next
  case c1: True
  show ?thesis
  proof (cases "chdir_result w (take 3 (script (av ! 1) d0 d0)) d0 (av ! 1)")
    case None
    from chdir_fails [OF assms(1) c1 None] assms(2) c1 None that(2) show ?thesis
      by simp
  next
    case (Some d)
    have e2: "take 2 (script (av ! 1) d0 d0) = take 2 (script (av ! 1) d0 d)"
      and e3: "take 3 (script (av ! 1) d0 d0) = take 3 (script (av ! 1) d0 d)"
      by (simp_all add: script_def)
    note c1' = c1 [unfolded e2] and c2 = Some [unfolded e3]
    show ?thesis
    proof (cases "returncode w (take 6 (script (av ! 1) d0 d)) d git_init_cmd = 0")
      case False
      from git_init_fails [OF assms(1) c1' c2 refl False] assms(2) False c1' c2 that(3)
      show ?thesis by simp
    next
      case c3: True
      show ?thesis
      proof (cases "returncode w (take 8 (script (av ! 1) d0 d)) d git_branch_cmd = 0")
        case False
        from git_branch_fails [OF assms(1) c1' c2 c3 refl False] assms(2) False c1' c2 c3 that(4)
        show ?thesis by simp
      next
        case c4: True
        show ?thesis
        proof (cases "returncode w (take 11 (script (av ! 1) d0 d)) d venv_cmd = 0")
          case False
          from venv_fails [OF assms(1) c1' c2 c3 c4 refl False] assms(2) False c1' c2 c3 c4 that(5)
          show ?thesis by simp
        next
          case c5: True
          from all_succeed [OF assms(1) c1' c2 c3 c4 c5] assms(2) c1' c2 c3 c4 c5 that(6)
          show ?thesis by simp
        qed
      qed
    qed
  qed
qed

subsection \<open>Words of the commands\<close>



lemma cookiecutter_once:
  assumes "2 \<le> length av" and "run_init w (start av d0) = (r, s)"
  shows "filter is_cookiecutter (trace s) = [Shell d0 (cookiecutter_cmd (av ! 1))]"
  using assms
  by (cases rule: run_init_cases)
    (simp_all add: script_def cookiecutter_cmd_def git_init_cmd_def git_branch_cmd_def venv_cmd_def)


lemma demo_run:
  "run_init os_ok (start [''cli-standard-kit'', ''demo''] ''/home/u'') =
     (Inr (), \<lparr>argv = [''cli-standard-kit'', ''demo''], cwd = ''/home/u/demo'',
               trace = script ''demo'' ''/home/u'' ''/home/u/demo''\<rparr>)"
  by (simp add: run_init_def py_defs start_def os_ok_def script_def)

subsection \<open>Further facts shared by the claims\<close>

lemmas cmd_defs = cookiecutter_cmd_def git_init_cmd_def git_branch_cmd_def venv_cmd_def

lemmas msg_defs = usage_msg_def creating_msg_def entered_msg_def venv_msg_def venv_done_msg_def
  ready_msg_def hint_msg_def icon_run_def icon_cross_def icon_rocket_def icon_folder_def
  icon_snake_def icon_check_def icon_package_def icon_arrow_def

lemma git_commands_words:
  "shell_commands git_init_cmd =
     Reads [[''git'', ''init'', ''-q''], [''git'', ''add'', ''.''],
           [''git'', ''commit'', ''-m'', ''init project'']]"
  "shell_commands git_branch_cmd = Reads [[''git'', ''branch'', ''-M'', ''main'']]"
  by (simp_all add: shell_commands_def git_init_cmd_def git_branch_cmd_def sh_special_def)

lemma venv_command_words:
  "shell_words venv_cmd = Reads [''python3'', ''-m'', ''venv'', ''.venv'']"
  by (simp add: shell_words_def shell_commands_def venv_cmd_def sh_special_def)

lemma empty_name_words:
  "shell_words (cookiecutter_cmd []) =
     Reads [''cookiecutter'', ''gh:c3nk/cookiecutter-cli-standard-kit'', ''--no-input'',
           ''project_name='', ''project_slug='']"
  by (simp add: shell_words_def shell_commands_def cookiecutter_cmd_def sh_special_def)

lemma extra_arguments_ignored:
  assumes "2 \<le> length av" and "run_init w (start av d0) = (r, s)"
  shows "run_init w (start (take 2 av) d0) = (r, s\<lparr>argv := take 2 av\<rparr>)"
proof -
  from assms(1) have l: "2 \<le> length (take 2 av)" and n: "take 2 av ! 1 = av ! 1"
    by simp_all
  from assms show ?thesis
  proof (cases rule: run_init_cases)
    case (cookiecutter rc)
    from cookiecutter_fails [OF l, unfolded n, OF cookiecutter(2) cookiecutter(1)] cookiecutter
    show ?thesis by simp
  next
    case chdir
    from chdir_fails [OF l, unfolded n, OF chdir(1) chdir(2)] chdir
    show ?thesis by simp
  next
    case (git_init d rc)
    from git_init_fails [OF l, unfolded n, OF git_init(2) git_init(3) git_init(4) git_init(1)]
      git_init
    show ?thesis by simp
  next
    case (git_branch d rc)
    from git_branch_fails [OF l, unfolded n, OF git_branch(2) git_branch(3) git_branch(4)
        git_branch(5) git_branch(1)] git_branch
    show ?thesis by simp
  next
    case (venv d rc)
    from venv_fails [OF l, unfolded n, OF venv(2) venv(3) venv(4) venv(5) venv(6) venv(1)] venv
    show ?thesis by simp
  next
    case (complete d)
    from all_succeed [OF l, unfolded n, OF complete(1) complete(2) complete(3) complete(4)
        complete(5)] complete
    show ?thesis by simp
  qed
qed

lemma no_usage_with_argument:
  assumes "2 \<le> length av" and "run_init w (start av d0) = (r, s)"
  shows "r \<noteq> Inl (SystemExit 1) \<and> Print usage_msg \<notin> set (trace s)"
  using assms
  by (cases rule: run_init_cases) (simp_all add: script_def msg_defs)

lemma cookiecutter_exit_2_run:
  "run_init (os_exit (cookiecutter_cmd ''demo'') 2) (start [''cli-standard-kit'', ''demo''] ''/home/u'') =
     (Inl (CalledProcessError 2 (cookiecutter_cmd ''demo'')),
      \<lparr>argv = [''cli-standard-kit'', ''demo''], cwd = ''/home/u'',
        trace = take 3 (script ''demo'' ''/home/u'' ''/home/u'')\<rparr>)"
  by (simp add: run_init_def py_defs start_def os_ok_def os_exit_def script_def)

lemma git_init_exit_128_run:
  "run_init (os_exit git_init_cmd 128) (start [''cli-standard-kit'', ''demo''] ''/home/u'') =
     (Inl (CalledProcessError 128 git_init_cmd),
      \<lparr>argv = [''cli-standard-kit'', ''demo''], cwd = ''/home/u/demo'',
        trace = take 7 (script ''demo'' ''/home/u'' ''/home/u/demo'')\<rparr>)"
  by (simp add: run_init_def py_defs start_def os_ok_def os_exit_def script_def cmd_defs)

lemma venv_exit_1_run:
  "run_init (os_exit venv_cmd 1) (start [''cli-standard-kit'', ''demo''] ''/home/u'') =
     (Inl (CalledProcessError 1 venv_cmd),
      \<lparr>argv = [''cli-standard-kit'', ''demo''], cwd = ''/home/u/demo'',
        trace = take 12 (script ''demo'' ''/home/u'' ''/home/u/demo'')\<rparr>)"
  by (simp add: run_init_def py_defs start_def os_ok_def os_exit_def script_def cmd_defs)

lemma no_dir_run:
  "run_init os_no_dir (start [''cli-standard-kit'', ''demo''] ''/home/u'') =
     (Inl (OSError ''demo''),
      \<lparr>argv = [''cli-standard-kit'', ''demo''], cwd = ''/home/u'',
        trace = take 4 (script ''demo'' ''/home/u'' ''/home/u'')\<rparr>)"
  by (simp add: run_init_def py_defs start_def os_ok_def os_no_dir_def script_def)

lemma no_argument_run:
  "run_init os_ok (start [''cli-standard-kit''] ''/home/u'') =
     (Inl (SystemExit 1), \<lparr>argv = [''cli-standard-kit''], cwd = ''/home/u'', trace = [Print usage_msg]\<rparr>)"
  by (simp add: usage_outcome)

lemma extra_argument_run:
  "run_init os_ok (start [''cli-standard-kit'', ''demo'', ''extra''] ''/home/u'') =
     (Inr (), \<lparr>argv = [''cli-standard-kit'', ''demo'', ''extra''], cwd = ''/home/u/demo'',
               trace = script ''demo'' ''/home/u'' ''/home/u/demo''\<rparr>)"
  by (simp add: run_init_def py_defs start_def os_ok_def script_def)

lemma empty_name_run:
  "run_init os_ok (start [''cli-standard-kit'', []] ''/home/u'') =
     (Inl (OSError []),
      \<lparr>argv = [''cli-standard-kit'', []], cwd = ''/home/u'',
        trace = take 4 (script [] ''/home/u'' ''/home/u'')\<rparr>)"
  by (simp add: run_init_def py_defs start_def os_ok_def script_def)

section \<open>The claims\<close>




text \<open>
  C2. With fewer than two entries in the argument list (no positional argument), the run
  prints the usage message on standard output, the cross icon followed by
  \<^verbatim>\<open> Usage: cli-standard-kit init <project_name>\<close>, and raises \<^verbatim>\<open>SystemExit(1)\<close>, so the
  process ends with status 1. The usage line is the only effect: no command is run, no
  directory is entered, and the working directory is the one the process started in.
\<close>

theorem usage_error_on_missing_argument:
  assumes "length av < 2"
  shows "fst (run_init w (start av d0)) = Inl (SystemExit 1)
       \<and> exit_status (fst (run_init w (start av d0))) = 1
       \<and> trace (snd (run_init w (start av d0))) =
           [Print ([CHR 0xE2, CHR 0x9D, CHR 0x8C] @
                   '' Usage: cli-standard-kit init <project_name>'')]
       \<and> filter external (trace (snd (run_init w (start av d0)))) = []
       \<and> cwd (snd (run_init w (start av d0))) = d0"
  using assms by (simp add: usage_outcome exit_status_def usage_msg_def icon_cross_def)

theorem usage_error_on_missing_argument_witness:
  "length [''cli-standard-kit''] < 2
   \<and> fst (run_init os_ok (start [''cli-standard-kit''] ''/home/u'')) = Inl (SystemExit 1)
   \<and> exit_status (fst (run_init os_ok (start [''cli-standard-kit''] ''/home/u''))) = 1
   \<and> trace (snd (run_init os_ok (start [''cli-standard-kit''] ''/home/u''))) =
       [Print ([CHR 0xE2, CHR 0x9D, CHR 0x8C] @
               '' Usage: cli-standard-kit init <project_name>'')]
   \<and> filter external (trace (snd (run_init os_ok (start [''cli-standard-kit''] ''/home/u'')))) = []
   \<and> cwd (snd (run_init os_ok (start [''cli-standard-kit''] ''/home/u''))) = ''/home/u''"
proof -
  have l: "length [''cli-standard-kit''] < 2" by simp
  note t = usage_error_on_missing_argument [OF l, of os_ok "''/home/u''"]
  from l t show ?thesis by (intro conjI) blast+
qed

text \<open>
  C3. The steps run in the order of the script and stop at the first failure. Without a
  project name the usage line is the only effect. With one, the effects of a run are an
  initial part of \<open>script\<close> (never fewer than the first three: the two status
  lines and the cookiecutter command); every action but the last one performed has succeeded,
  so nothing is done after an action that fails; the run returns exactly when the whole script
  was performed, and otherwise the last action performed is the one that failed. In
  particular, when the cookiecutter command exits with a non-zero status, it is the only
  action on the surroundings: no directory is entered and neither git nor the virtual
  environment command is run.
\<close>

theorem steps_in_order_and_fail_fast:
  assumes "run_init w (start av d0) = (r, s)"
  shows "(length av < 2 \<longrightarrow> r = Inl (SystemExit 1) \<and> trace s = [Print usage_msg])
       \<and> (2 \<le> length av \<longrightarrow>
            prefix (trace s) (script (av ! 1) d0 (cwd s))
            \<and> 3 \<le> length (trace s)
            \<and> all_ok w (cwd s) [] (butlast (trace s))
            \<and> (r = Inr () \<longleftrightarrow> trace s = script (av ! 1) d0 (cwd s))
            \<and> (r \<noteq> Inr () \<longrightarrow> \<not> answer_ok w (cwd s) (butlast (trace s)) (last (trace s)))
            \<and> (returncode w (take 2 (script (av ! 1) d0 d0)) d0 (cookiecutter_cmd (av ! 1)) \<noteq> 0
                 \<longrightarrow> filter external (trace s) = [Shell d0 (cookiecutter_cmd (av ! 1))]))"
proof (cases "length av < 2")
  case True
  from usage_outcome [OF True, of w d0] assms True show ?thesis by simp
next
  case False
  then have l: "2 \<le> length av" by simp
  from l assms show ?thesis
  proof (cases rule: run_init_cases)
    case (cookiecutter rc)
    then show ?thesis using l by (simp add: script_def)
  next
    case chdir
    then show ?thesis using l by (simp add: script_def)
  next
    case (git_init d rc)
    then show ?thesis using l by (simp add: script_def)
  next
    case (git_branch d rc)
    then show ?thesis using l by (simp add: script_def)
  next
    case (venv d rc)
    then show ?thesis using l by (simp add: script_def)
  next
    case (complete d)
    then show ?thesis using l by (simp add: script_def)
  qed
qed

theorem steps_in_order_and_fail_fast_witness:
  "run_init (os_exit git_init_cmd 128) (start [''cli-standard-kit'', ''demo''] ''/home/u'') =
     (Inl (CalledProcessError 128 git_init_cmd),
      \<lparr>argv = [''cli-standard-kit'', ''demo''], cwd = ''/home/u/demo'',
        trace = take 7 (script ''demo'' ''/home/u'' ''/home/u/demo'')\<rparr>)
   \<and> 2 \<le> length [''cli-standard-kit'', ''demo'']
   \<and> prefix (take 7 (script ''demo'' ''/home/u'' ''/home/u/demo''))
        (script ''demo'' ''/home/u'' ''/home/u/demo'')
   \<and> all_ok (os_exit git_init_cmd 128) ''/home/u/demo'' []
        (take 6 (script ''demo'' ''/home/u'' ''/home/u/demo''))
   \<and> \<not> answer_ok (os_exit git_init_cmd 128) ''/home/u/demo''
        (take 6 (script ''demo'' ''/home/u'' ''/home/u/demo'')) (Shell ''/home/u/demo'' git_init_cmd)
   \<and> run_init (os_exit (cookiecutter_cmd ''demo'') 2) (start [''cli-standard-kit'', ''demo''] ''/home/u'') =
     (Inl (CalledProcessError 2 (cookiecutter_cmd ''demo'')),
      \<lparr>argv = [''cli-standard-kit'', ''demo''], cwd = ''/home/u'',
        trace = take 3 (script ''demo'' ''/home/u'' ''/home/u'')\<rparr>)
   \<and> returncode (os_exit (cookiecutter_cmd ''demo'') 2) (take 2 (script ''demo'' ''/home/u'' ''/home/u''))
        ''/home/u'' (cookiecutter_cmd ''demo'') \<noteq> 0
   \<and> filter external (take 3 (script ''demo'' ''/home/u'' ''/home/u'')) =
        [Shell ''/home/u'' (cookiecutter_cmd ''demo'')]
   \<and> length [''cli-standard-kit''] < 2
   \<and> run_init os_ok (start [''cli-standard-kit''] ''/home/u'') =
     (Inl (SystemExit 1), \<lparr>argv = [''cli-standard-kit''], cwd = ''/home/u'', trace = [Print usage_msg]\<rparr>)"
proof -
  note t1 = steps_in_order_and_fail_fast [OF git_init_exit_128_run]
  note t2 = steps_in_order_and_fail_fast [OF cookiecutter_exit_2_run]
  note t3 = steps_in_order_and_fail_fast [OF no_argument_run]
  have a: "prefix (take 7 (script ''demo'' ''/home/u'' ''/home/u/demo''))
        (script ''demo'' ''/home/u'' ''/home/u/demo'')"
    using t1 by (simp add: script_def)
  have b: "all_ok (os_exit git_init_cmd 128) ''/home/u/demo'' []
        (take 6 (script ''demo'' ''/home/u'' ''/home/u/demo''))"
    using t1 by (simp add: script_def)
  have c: "\<not> answer_ok (os_exit git_init_cmd 128) ''/home/u/demo''
        (take 6 (script ''demo'' ''/home/u'' ''/home/u/demo'')) (Shell ''/home/u/demo'' git_init_cmd)"
    using t1 by (simp add: script_def)
  have d: "returncode (os_exit (cookiecutter_cmd ''demo'') 2) (take 2 (script ''demo'' ''/home/u'' ''/home/u''))
        ''/home/u'' (cookiecutter_cmd ''demo'') \<noteq> 0"
    by (simp add: os_exit_def)
  have e: "filter external (take 3 (script ''demo'' ''/home/u'' ''/home/u'')) =
        [Shell ''/home/u'' (cookiecutter_cmd ''demo'')]"
    using t2 d by (simp add: script_def)
  have f: "run_init os_ok (start [''cli-standard-kit''] ''/home/u'') =
     (Inl (SystemExit 1), \<lparr>argv = [''cli-standard-kit''], cwd = ''/home/u'', trace = [Print usage_msg]\<rparr>)"
    using t3 no_argument_run by simp
  have l: "2 \<le> length [''cli-standard-kit'', ''demo'']" "length [''cli-standard-kit''] < 2"
    by simp_all
  from git_init_exit_128_run l a b c cookiecutter_exit_2_run d e f show ?thesis
    by (intro conjI)
qed




text \<open>
  C5, as amended. When the cookiecutter command has succeeded, the next action is
  \<^verbatim>\<open>os.chdir(project_name)\<close>, and it is the only call of \<^verbatim>\<open>os.chdir\<close> in the run. When the
  call enters the directory \<open>d\<close>, the line printed next is the folder icon followed by
  \<^verbatim>\<open> Entered: \<close> and \<open>d\<close>, every later command runs in \<open>d\<close>, and \<open>d\<close> is the working
  directory when the run ends, whether it returns or a later step fails. When the call
  raises, the run ends with \<^verbatim>\<open>OSError\<close> right after it, in the directory it started in.
\<close>

theorem working_directory_changed_once:
  assumes "2 \<le> length av" and "run_init w (start av d0) = (r, s)"
    and "returncode w (take 2 (script (av ! 1) d0 d0)) d0 (cookiecutter_cmd (av ! 1)) = 0"
  shows "take 4 (trace s) = take 4 (script (av ! 1) d0 d0)
       \<and> filter is_chdir (trace s) = [Chdir d0 (av ! 1)]
       \<and> (\<forall>d. chdir_result w (take 3 (script (av ! 1) d0 d0)) d0 (av ! 1) = Some d \<longrightarrow>
             cwd s = d \<and> take 5 (trace s) = take 5 (script (av ! 1) d0 d)
             \<and> trace s ! 4 =
                 Print ([CHR 0xF0, CHR 0x9F, CHR 0x93, CHR 0x81] @ '' Entered: '' @ d)
             \<and> prefix (trace s) (script (av ! 1) d0 d))
       \<and> (chdir_result w (take 3 (script (av ! 1) d0 d0)) d0 (av ! 1) = None \<longrightarrow>
             cwd s = d0 \<and> r = Inl (OSError (av ! 1))
             \<and> trace s = take 4 (script (av ! 1) d0 d0))"
  using assms
proof (cases rule: run_init_cases)
  case (cookiecutter rc)
  then show ?thesis using assms(3) by simp
next
  case chdir
  then show ?thesis by (simp add: script_def)
next
  case (git_init d rc)
  then show ?thesis by (simp add: script_def entered_msg_def icon_folder_def)
next
  case (git_branch d rc)
  then show ?thesis by (simp add: script_def entered_msg_def icon_folder_def)
next
  case (venv d rc)
  then show ?thesis by (simp add: script_def entered_msg_def icon_folder_def)
next
  case (complete d)
  then show ?thesis by (simp add: script_def entered_msg_def icon_folder_def)
qed

theorem working_directory_changed_once_witness:
  "2 \<le> length [''cli-standard-kit'', ''demo'']
   \<and> run_init (os_exit venv_cmd 1) (start [''cli-standard-kit'', ''demo''] ''/home/u'') =
     (Inl (CalledProcessError 1 venv_cmd),
      \<lparr>argv = [''cli-standard-kit'', ''demo''], cwd = ''/home/u/demo'',
        trace = take 12 (script ''demo'' ''/home/u'' ''/home/u/demo'')\<rparr>)
   \<and> returncode (os_exit venv_cmd 1) (take 2 (script ''demo'' ''/home/u'' ''/home/u''))
        ''/home/u'' (cookiecutter_cmd ''demo'') = 0
   \<and> chdir_result (os_exit venv_cmd 1) (take 3 (script ''demo'' ''/home/u'' ''/home/u''))
        ''/home/u'' ''demo'' = Some ''/home/u/demo''
   \<and> filter is_chdir (take 12 (script ''demo'' ''/home/u'' ''/home/u/demo'')) =
        [Chdir ''/home/u'' ''demo'']
   \<and> take 5 (take 12 (script ''demo'' ''/home/u'' ''/home/u/demo'')) =
        take 5 (script ''demo'' ''/home/u'' ''/home/u/demo'')
   \<and> take 12 (script ''demo'' ''/home/u'' ''/home/u/demo'') ! 4 =
        Print ([CHR 0xF0, CHR 0x9F, CHR 0x93, CHR 0x81] @ '' Entered: /home/u/demo'')
   \<and> run_init os_no_dir (start [''cli-standard-kit'', ''demo''] ''/home/u'') =
     (Inl (OSError ''demo''),
      \<lparr>argv = [''cli-standard-kit'', ''demo''], cwd = ''/home/u'',
        trace = take 4 (script ''demo'' ''/home/u'' ''/home/u'')\<rparr>)
   \<and> returncode os_no_dir (take 2 (script ''demo'' ''/home/u'' ''/home/u''))
        ''/home/u'' (cookiecutter_cmd ''demo'') = 0
   \<and> chdir_result os_no_dir (take 3 (script ''demo'' ''/home/u'' ''/home/u''))
        ''/home/u'' ''demo'' = None"
proof -
  have l: "2 \<le> length [''cli-standard-kit'', ''demo'']" by simp
  have a: "returncode (os_exit venv_cmd 1) (take 2 (script ''demo'' ''/home/u'' ''/home/u''))
        ''/home/u'' (cookiecutter_cmd ''demo'') = 0"
    by (simp add: os_exit_def cmd_defs)
  have b: "returncode os_no_dir (take 2 (script ''demo'' ''/home/u'' ''/home/u''))
        ''/home/u'' (cookiecutter_cmd ''demo'') = 0"
    by (simp add: os_no_dir_def os_ok_def)
  have c: "chdir_result (os_exit venv_cmd 1) (take 3 (script ''demo'' ''/home/u'' ''/home/u''))
        ''/home/u'' ''demo'' = Some ''/home/u/demo''"
    by (simp add: os_exit_def os_ok_def)
  have d: "chdir_result os_no_dir (take 3 (script ''demo'' ''/home/u'' ''/home/u''))
        ''/home/u'' ''demo'' = None"
    by (simp add: os_no_dir_def)
  have n: "[''cli-standard-kit'', ''demo''] ! 1 = ''demo''" by simp
  note t1 = working_directory_changed_once [OF l venv_exit_1_run, unfolded n, OF a]
  note t2 = working_directory_changed_once [OF l no_dir_run, unfolded n, OF b]
  have e: "filter is_chdir (take 12 (script ''demo'' ''/home/u'' ''/home/u/demo'')) =
        [Chdir ''/home/u'' ''demo'']"
    using t1 by simp
  have f: "take 5 (take 12 (script ''demo'' ''/home/u'' ''/home/u/demo'')) =
        take 5 (script ''demo'' ''/home/u'' ''/home/u/demo'')"
    using t1 c by simp
  have p: "take 12 (script ''demo'' ''/home/u'' ''/home/u/demo'') ! 4 =
        Print ([CHR 0xF0, CHR 0x9F, CHR 0x93, CHR 0x81] @ '' Entered: /home/u/demo'')"
    using t1 c by simp
  have g: "run_init os_no_dir (start [''cli-standard-kit'', ''demo''] ''/home/u'') =
     (Inl (OSError ''demo''),
      \<lparr>argv = [''cli-standard-kit'', ''demo''], cwd = ''/home/u'',
        trace = take 4 (script ''demo'' ''/home/u'' ''/home/u'')\<rparr>)"
    using t2 d no_dir_run by simp
  from l venv_exit_1_run a c e f p g b d show ?thesis
    by (intro conjI)
qed

text \<open>
  C5 as stated fails where the directory cannot be entered. The cookiecutter command
  succeeds, \<^verbatim>\<open>os.chdir\<close> raises, and the run ends there: the working directory is still the
  one the process started in, and no path has been printed.
\<close>

theorem working_directory_unchanged_when_chdir_raises:
  "returncode os_no_dir (take 2 (script ''demo'' ''/home/u'' ''/home/u'')) ''/home/u''
     (cookiecutter_cmd ''demo'') = 0
   \<and> fst (run_init os_no_dir (start [''cli-standard-kit'', ''demo''] ''/home/u'')) =
       Inl (OSError ''demo'')
   \<and> cwd (snd (run_init os_no_dir (start [''cli-standard-kit'', ''demo''] ''/home/u''))) =
       ''/home/u''
   \<and> trace (snd (run_init os_no_dir (start [''cli-standard-kit'', ''demo''] ''/home/u''))) =
       [Print (creating_msg ''demo''), Print (icon_run @ '' '' @ cookiecutter_cmd ''demo''),
        Shell ''/home/u'' (cookiecutter_cmd ''demo''), Chdir ''/home/u'' ''demo'']"
proof (intro conjI)
  show "returncode os_no_dir (take 2 (script ''demo'' ''/home/u'' ''/home/u'')) ''/home/u''
     (cookiecutter_cmd ''demo'') = 0"
    by (simp add: os_no_dir_def os_ok_def)
  show "fst (run_init os_no_dir (start [''cli-standard-kit'', ''demo''] ''/home/u'')) =
       Inl (OSError ''demo'')"
    by (simp add: no_dir_run)
  show "cwd (snd (run_init os_no_dir (start [''cli-standard-kit'', ''demo''] ''/home/u''))) =
       ''/home/u''"
    by (simp add: no_dir_run)
  show "trace (snd (run_init os_no_dir (start [''cli-standard-kit'', ''demo''] ''/home/u''))) =
       [Print (creating_msg ''demo''), Print (icon_run @ '' '' @ cookiecutter_cmd ''demo''),
        Shell ''/home/u'' (cookiecutter_cmd ''demo''), Chdir ''/home/u'' ''demo'']"
    by (simp add: no_dir_run script_def)
qed

text \<open>
  C6. Once the project directory \<open>d\<close> is entered, the next command, run in \<open>d\<close>, is the
  and-list \<^verbatim>\<open>git init -q\<close>, \<^verbatim>\<open>git add .\<close>, \<^verbatim>\<open>git commit -m 'init project'\<close>. When it
  succeeds, \<^verbatim>\<open>git branch -M main\<close> follows in \<open>d\<close>; when it fails, the run stops there.
  The commit command is issued exactly once and the branch command at most once: the
  actions of a run on its surroundings are an initial part of cookiecutter, chdir, the two
  git commands and the virtual environment command.
\<close>

theorem repository_initialised:
  assumes "2 \<le> length av" and "run_init w (start av d0) = (r, s)"
    and "returncode w (take 2 (script (av ! 1) d0 d)) d0 (cookiecutter_cmd (av ! 1)) = 0"
    and "chdir_result w (take 3 (script (av ! 1) d0 d)) d0 (av ! 1) = Some d"
  shows "take 7 (trace s) = take 7 (script (av ! 1) d0 d)
       \<and> shell_commands git_init_cmd =
           Reads [[''git'', ''init'', ''-q''], [''git'', ''add'', ''.''],
                 [''git'', ''commit'', ''-m'', ''init project'']]
       \<and> (returncode w (take 6 (script (av ! 1) d0 d)) d git_init_cmd = 0 \<longrightarrow>
             take 9 (trace s) = take 9 (script (av ! 1) d0 d))
       \<and> shell_commands git_branch_cmd = Reads [[''git'', ''branch'', ''-M'', ''main'']]
       \<and> (returncode w (take 6 (script (av ! 1) d0 d)) d git_init_cmd \<noteq> 0 \<longrightarrow>
             trace s = take 7 (script (av ! 1) d0 d))
       \<and> count_list (trace s) (Shell d git_init_cmd) = 1
       \<and> count_list (trace s) (Shell d git_branch_cmd) \<le> 1
       \<and> prefix (filter external (trace s))
           [Shell d0 (cookiecutter_cmd (av ! 1)), Chdir d0 (av ! 1),
            Shell d git_init_cmd, Shell d git_branch_cmd, Shell d venv_cmd]"
  using assms(1,2)
proof (cases rule: run_init_cases)
  case (cookiecutter rc)
  then show ?thesis using assms(3) by (simp add: script_def)
next
  case chdir
  then show ?thesis using assms(4) by (simp add: script_def)
next
  case (git_init d' rc)
  with assms(4) have "d' = d" by (simp add: script_def)
  with git_init show ?thesis
    by (simp add: git_commands_words) (simp add: script_def cmd_defs)
next
  case (git_branch d' rc)
  with assms(4) have "d' = d" by (simp add: script_def)
  with git_branch show ?thesis
    by (simp add: git_commands_words) (simp add: script_def cmd_defs)
next
  case (venv d' rc)
  with assms(4) have "d' = d" by (simp add: script_def)
  with venv show ?thesis
    by (simp add: git_commands_words) (simp add: script_def cmd_defs)
next
  case (complete d')
  with assms(4) have "d' = d" by (simp add: script_def)
  with complete show ?thesis
    by (simp add: git_commands_words) (simp add: script_def cmd_defs)
qed

theorem repository_initialised_witness:
  "2 \<le> length [''cli-standard-kit'', ''demo'']
   \<and> run_init os_ok (start [''cli-standard-kit'', ''demo''] ''/home/u'') =
       (Inr (), \<lparr>argv = [''cli-standard-kit'', ''demo''], cwd = ''/home/u/demo'',
                 trace = script ''demo'' ''/home/u'' ''/home/u/demo''\<rparr>)
   \<and> returncode os_ok (take 2 (script ''demo'' ''/home/u'' ''/home/u/demo'')) ''/home/u''
        (cookiecutter_cmd ''demo'') = 0
   \<and> chdir_result os_ok (take 3 (script ''demo'' ''/home/u'' ''/home/u/demo'')) ''/home/u'' ''demo'' =
        Some ''/home/u/demo''
   \<and> returncode os_ok (take 6 (script ''demo'' ''/home/u'' ''/home/u/demo'')) ''/home/u/demo''
        git_init_cmd = 0
   \<and> count_list (script ''demo'' ''/home/u'' ''/home/u/demo'') (Shell ''/home/u/demo'' git_init_cmd) = 1
   \<and> take 9 (script ''demo'' ''/home/u'' ''/home/u/demo'') ! 6 = Shell ''/home/u/demo'' git_init_cmd
   \<and> take 9 (script ''demo'' ''/home/u'' ''/home/u/demo'') ! 8 = Shell ''/home/u/demo'' git_branch_cmd
   \<and> run_init (os_exit git_init_cmd 128) (start [''cli-standard-kit'', ''demo''] ''/home/u'') =
     (Inl (CalledProcessError 128 git_init_cmd),
      \<lparr>argv = [''cli-standard-kit'', ''demo''], cwd = ''/home/u/demo'',
        trace = take 7 (script ''demo'' ''/home/u'' ''/home/u/demo'')\<rparr>)
   \<and> returncode (os_exit git_init_cmd 128) (take 6 (script ''demo'' ''/home/u'' ''/home/u/demo''))
        ''/home/u/demo'' git_init_cmd \<noteq> 0
   \<and> count_list (take 7 (script ''demo'' ''/home/u'' ''/home/u/demo''))
        (Shell ''/home/u/demo'' git_branch_cmd) = 0"
proof -
  have l: "2 \<le> length [''cli-standard-kit'', ''demo'']" by simp
  have n: "[''cli-standard-kit'', ''demo''] ! 1 = ''demo''" by simp
  have a1: "returncode os_ok (take 2 (script ''demo'' ''/home/u'' ''/home/u/demo'')) ''/home/u''
        (cookiecutter_cmd ''demo'') = 0"
    and a2: "chdir_result os_ok (take 3 (script ''demo'' ''/home/u'' ''/home/u/demo'')) ''/home/u'' ''demo'' =
        Some ''/home/u/demo''"
    and a3: "returncode os_ok (take 6 (script ''demo'' ''/home/u'' ''/home/u/demo'')) ''/home/u/demo''
        git_init_cmd = 0"
    by (simp_all add: os_ok_def)
  have b1: "returncode (os_exit git_init_cmd 128) (take 2 (script ''demo'' ''/home/u'' ''/home/u/demo''))
        ''/home/u'' (cookiecutter_cmd ''demo'') = 0"
    and b2: "chdir_result (os_exit git_init_cmd 128) (take 3 (script ''demo'' ''/home/u'' ''/home/u/demo''))
        ''/home/u'' ''demo'' = Some ''/home/u/demo''"
    and b3: "returncode (os_exit git_init_cmd 128) (take 6 (script ''demo'' ''/home/u'' ''/home/u/demo''))
        ''/home/u/demo'' git_init_cmd \<noteq> 0"
    by (simp_all add: os_exit_def os_ok_def cmd_defs)
  note t1 = repository_initialised [OF l demo_run, unfolded n, OF a1 a2]
  note t2 = repository_initialised [OF l git_init_exit_128_run, unfolded n, OF b1 b2]
  from t1 have c: "count_list (script ''demo'' ''/home/u'' ''/home/u/demo'')
      (Shell ''/home/u/demo'' git_init_cmd) = 1"
    by simp
  have d: "take 9 (script ''demo'' ''/home/u'' ''/home/u/demo'') ! 6 = Shell ''/home/u/demo'' git_init_cmd"
    and e: "take 9 (script ''demo'' ''/home/u'' ''/home/u/demo'') ! 8 = Shell ''/home/u/demo'' git_branch_cmd"
    by (simp_all add: script_def)
  from t2 b3 have f: "count_list (take 7 (script ''demo'' ''/home/u'' ''/home/u/demo''))
        (Shell ''/home/u/demo'' git_branch_cmd) = 0"
    by (simp add: script_def cmd_defs)
  from l demo_run a1 a2 a3 c d e git_init_exit_128_run b3 f show ?thesis
    by (intro conjI)
qed

text \<open>
  C7. Once the branch is renamed, the run prints the line announcing the virtual
  environment (the snake icon followed by \<^verbatim>\<open> Creating virtual environment (.venv)...\<close>),
  then, after the line that echoes the command, runs \<^verbatim>\<open>python3 -m venv .venv\<close> in the
  project directory \<open>d\<close>, the target being the relative name \<^verbatim>\<open>.venv\<close>. When the command
  succeeds the completion line (the check icon followed by
  \<^verbatim>\<open> Virtual environment created.\<close>) is printed next and the run returns; when it fails
  the run ends there with \<^verbatim>\<open>CalledProcessError\<close>.
\<close>

theorem virtual_environment_created:
  assumes "2 \<le> length av" and "run_init w (start av d0) = (r, s)"
    and "returncode w (take 2 (script (av ! 1) d0 d)) d0 (cookiecutter_cmd (av ! 1)) = 0"
    and "chdir_result w (take 3 (script (av ! 1) d0 d)) d0 (av ! 1) = Some d"
    and "returncode w (take 6 (script (av ! 1) d0 d)) d git_init_cmd = 0"
    and "returncode w (take 8 (script (av ! 1) d0 d)) d git_branch_cmd = 0"
  shows "take 12 (trace s) = take 12 (script (av ! 1) d0 d)
       \<and> drop 9 (take 12 (trace s)) =
           [Print ([CHR 0xF0, CHR 0x9F, CHR 0x90, CHR 0x8D] @ '' Creating virtual environment (.venv)...''),
            Print ([CHR 0xE2, CHR 0x96, CHR 0xB6] @ '' python3 -m venv .venv''),
            Shell d ''python3 -m venv .venv'']
       \<and> shell_words venv_cmd = Reads [''python3'', ''-m'', ''venv'', ''.venv'']
       \<and> (returncode w (take 11 (script (av ! 1) d0 d)) d venv_cmd = 0 \<longrightarrow>
             r = Inr () \<and> trace s = script (av ! 1) d0 d
             \<and> trace s ! 12 = Print ([CHR 0xE2, CHR 0x9C, CHR 0x85] @ '' Virtual environment created.''))
       \<and> (returncode w (take 11 (script (av ! 1) d0 d)) d venv_cmd \<noteq> 0 \<longrightarrow>
             r = Inl (CalledProcessError (returncode w (take 11 (script (av ! 1) d0 d)) d venv_cmd)
                        venv_cmd)
             \<and> trace s = take 12 (script (av ! 1) d0 d))"
  using assms(1,2)
proof (cases rule: run_init_cases)
  case (cookiecutter rc)
  then show ?thesis using assms(3) by (simp add: script_def)
next
  case chdir
  then show ?thesis using assms(4) by (simp add: script_def)
next
  case (git_init d' rc)
  with assms(4) have "d' = d" by (simp add: script_def)
  with git_init show ?thesis using assms(5) by simp
next
  case (git_branch d' rc)
  with assms(4) have "d' = d" by (simp add: script_def)
  with git_branch show ?thesis using assms(6) by simp
next
  case (venv d' rc)
  with assms(4) have "d' = d" by (simp add: script_def)
  with venv show ?thesis
    by (simp add: venv_command_words)
      (simp add: script_def venv_msg_def venv_cmd_def icon_snake_def icon_run_def)
next
  case (complete d')
  with assms(4) have "d' = d" by (simp add: script_def)
  with complete show ?thesis
    by (simp add: venv_command_words)
      (simp add: script_def venv_msg_def venv_done_msg_def venv_cmd_def icon_snake_def
        icon_run_def icon_check_def)
qed

theorem virtual_environment_created_witness:
  "2 \<le> length [''cli-standard-kit'', ''demo'']
   \<and> run_init os_ok (start [''cli-standard-kit'', ''demo''] ''/home/u'') =
       (Inr (), \<lparr>argv = [''cli-standard-kit'', ''demo''], cwd = ''/home/u/demo'',
                 trace = script ''demo'' ''/home/u'' ''/home/u/demo''\<rparr>)
   \<and> returncode os_ok (take 2 (script ''demo'' ''/home/u'' ''/home/u/demo'')) ''/home/u''
        (cookiecutter_cmd ''demo'') = 0
   \<and> chdir_result os_ok (take 3 (script ''demo'' ''/home/u'' ''/home/u/demo'')) ''/home/u'' ''demo'' =
        Some ''/home/u/demo''
   \<and> returncode os_ok (take 6 (script ''demo'' ''/home/u'' ''/home/u/demo'')) ''/home/u/demo''
        git_init_cmd = 0
   \<and> returncode os_ok (take 8 (script ''demo'' ''/home/u'' ''/home/u/demo'')) ''/home/u/demo''
        git_branch_cmd = 0
   \<and> returncode os_ok (take 11 (script ''demo'' ''/home/u'' ''/home/u/demo'')) ''/home/u/demo''
        venv_cmd = 0
   \<and> drop 9 (take 12 (script ''demo'' ''/home/u'' ''/home/u/demo'')) =
        [Print ([CHR 0xF0, CHR 0x9F, CHR 0x90, CHR 0x8D] @ '' Creating virtual environment (.venv)...''),
         Print ([CHR 0xE2, CHR 0x96, CHR 0xB6] @ '' python3 -m venv .venv''),
         Shell ''/home/u/demo'' ''python3 -m venv .venv'']
   \<and> script ''demo'' ''/home/u'' ''/home/u/demo'' ! 12 =
        Print ([CHR 0xE2, CHR 0x9C, CHR 0x85] @ '' Virtual environment created.'')
   \<and> run_init (os_exit venv_cmd 1) (start [''cli-standard-kit'', ''demo''] ''/home/u'') =
     (Inl (CalledProcessError 1 venv_cmd),
      \<lparr>argv = [''cli-standard-kit'', ''demo''], cwd = ''/home/u/demo'',
        trace = take 12 (script ''demo'' ''/home/u'' ''/home/u/demo'')\<rparr>)
   \<and> returncode (os_exit venv_cmd 1) (take 11 (script ''demo'' ''/home/u'' ''/home/u/demo''))
        ''/home/u/demo'' venv_cmd = 1"
proof -
  have l: "2 \<le> length [''cli-standard-kit'', ''demo'']" by simp
  have n: "[''cli-standard-kit'', ''demo''] ! 1 = ''demo''" by simp
  have a1: "returncode os_ok (take 2 (script ''demo'' ''/home/u'' ''/home/u/demo'')) ''/home/u''
        (cookiecutter_cmd ''demo'') = 0"
    and a2: "chdir_result os_ok (take 3 (script ''demo'' ''/home/u'' ''/home/u/demo'')) ''/home/u'' ''demo'' =
        Some ''/home/u/demo''"
    and a3: "returncode os_ok (take 6 (script ''demo'' ''/home/u'' ''/home/u/demo'')) ''/home/u/demo''
        git_init_cmd = 0"
    and a4: "returncode os_ok (take 8 (script ''demo'' ''/home/u'' ''/home/u/demo'')) ''/home/u/demo''
        git_branch_cmd = 0"
    and a5: "returncode os_ok (take 11 (script ''demo'' ''/home/u'' ''/home/u/demo'')) ''/home/u/demo''
        venv_cmd = 0"
    by (simp_all add: os_ok_def)
  have b1: "returncode (os_exit venv_cmd 1) (take 2 (script ''demo'' ''/home/u'' ''/home/u/demo''))
        ''/home/u'' (cookiecutter_cmd ''demo'') = 0"
    and b2: "chdir_result (os_exit venv_cmd 1) (take 3 (script ''demo'' ''/home/u'' ''/home/u/demo''))
        ''/home/u'' ''demo'' = Some ''/home/u/demo''"
    and b3: "returncode (os_exit venv_cmd 1) (take 6 (script ''demo'' ''/home/u'' ''/home/u/demo''))
        ''/home/u/demo'' git_init_cmd = 0"
    and b4: "returncode (os_exit venv_cmd 1) (take 8 (script ''demo'' ''/home/u'' ''/home/u/demo''))
        ''/home/u/demo'' git_branch_cmd = 0"
    and b5: "returncode (os_exit venv_cmd 1) (take 11 (script ''demo'' ''/home/u'' ''/home/u/demo''))
        ''/home/u/demo'' venv_cmd = 1"
    by (simp_all add: os_exit_def os_ok_def cmd_defs)
  note t1 = virtual_environment_created [OF l demo_run, unfolded n, OF a1 a2 a3 a4]
  note t2 = virtual_environment_created [OF l venv_exit_1_run, unfolded n, OF b1 b2 b3 b4]
  from t1 [THEN conjunct2, THEN conjunct1]
  have c: "drop 9 (take 12 (script ''demo'' ''/home/u'' ''/home/u/demo'')) =
        [Print ([CHR 0xF0, CHR 0x9F, CHR 0x90, CHR 0x8D] @ '' Creating virtual environment (.venv)...''),
         Print ([CHR 0xE2, CHR 0x96, CHR 0xB6] @ '' python3 -m venv .venv''),
         Shell ''/home/u/demo'' ''python3 -m venv .venv'']"
    by simp
  from t1 [THEN conjunct2, THEN conjunct2, THEN conjunct2, THEN conjunct1] a5
  have d: "script ''demo'' ''/home/u'' ''/home/u/demo'' ! 12 =
        Print ([CHR 0xE2, CHR 0x9C, CHR 0x85] @ '' Virtual environment created.'')"
    by simp
  from t2 b5 have e: "run_init (os_exit venv_cmd 1) (start [''cli-standard-kit'', ''demo''] ''/home/u'') =
     (Inl (CalledProcessError 1 venv_cmd),
      \<lparr>argv = [''cli-standard-kit'', ''demo''], cwd = ''/home/u/demo'',
        trace = take 12 (script ''demo'' ''/home/u'' ''/home/u/demo'')\<rparr>)"
    using venv_exit_1_run by simp
  from l demo_run a1 a2 a3 a4 a5 c d e b5 show ?thesis
    by (intro conjI)
qed

text \<open>
  C8, as amended. Only a missing project name is rejected. An argument list with fewer than
  two entries gives the usage error; with two or more entries the run is never a usage
  error, takes the second entry as the project name, and does what it does for the first
  two entries alone: further arguments are ignored.
\<close>

theorem only_missing_argument_rejected:
  "(length av < 2 \<longrightarrow>
      fst (run_init w (start av d0)) = Inl (SystemExit 1)
      \<and> trace (snd (run_init w (start av d0))) = [Print usage_msg])
   \<and> (2 \<le> length av \<longrightarrow>
      fst (run_init w (start av d0)) \<noteq> Inl (SystemExit 1)
      \<and> Print usage_msg \<notin> set (trace (snd (run_init w (start av d0))))
      \<and> filter is_cookiecutter (trace (snd (run_init w (start av d0)))) =
          [Shell d0 (cookiecutter_cmd (av ! 1))]
      \<and> fst (run_init w (start av d0)) = fst (run_init w (start (take 2 av) d0))
      \<and> trace (snd (run_init w (start av d0))) = trace (snd (run_init w (start (take 2 av) d0)))
      \<and> cwd (snd (run_init w (start av d0))) = cwd (snd (run_init w (start (take 2 av) d0))))"
proof (intro conjI impI)
  assume "length av < 2"
  from usage_outcome [OF this, of w d0]
  show "fst (run_init w (start av d0)) = Inl (SystemExit 1)"
    and "trace (snd (run_init w (start av d0))) = [Print usage_msg]"
    by simp_all
next
  assume l: "2 \<le> length av"
  obtain r s where rs: "run_init w (start av d0) = (r, s)"
    by (cases "run_init w (start av d0)")
  from no_usage_with_argument [OF l rs] rs
  show "fst (run_init w (start av d0)) \<noteq> Inl (SystemExit 1)"
    and "Print usage_msg \<notin> set (trace (snd (run_init w (start av d0))))"
    by simp_all
  from cookiecutter_once [OF l rs] rs
  show "filter is_cookiecutter (trace (snd (run_init w (start av d0)))) =
          [Shell d0 (cookiecutter_cmd (av ! 1))]"
    by simp
  from extra_arguments_ignored [OF l rs] rs
  show "fst (run_init w (start av d0)) = fst (run_init w (start (take 2 av) d0))"
    and "trace (snd (run_init w (start av d0))) = trace (snd (run_init w (start (take 2 av) d0)))"
    and "cwd (snd (run_init w (start av d0))) = cwd (snd (run_init w (start (take 2 av) d0)))"
    by simp_all
qed

theorem only_missing_argument_rejected_witness:
  "length [''cli-standard-kit''] < 2
   \<and> fst (run_init os_ok (start [''cli-standard-kit''] ''/home/u'')) = Inl (SystemExit 1)
   \<and> trace (snd (run_init os_ok (start [''cli-standard-kit''] ''/home/u''))) = [Print usage_msg]
   \<and> 2 \<le> length [''cli-standard-kit'', ''demo'', ''extra'']
   \<and> fst (run_init os_ok (start [''cli-standard-kit'', ''demo'', ''extra''] ''/home/u'')) \<noteq>
        Inl (SystemExit 1)
   \<and> fst (run_init os_ok (start [''cli-standard-kit'', ''demo'', ''extra''] ''/home/u'')) =
        fst (run_init os_ok (start [''cli-standard-kit'', ''demo''] ''/home/u''))
   \<and> trace (snd (run_init os_ok (start [''cli-standard-kit'', ''demo'', ''extra''] ''/home/u''))) =
        trace (snd (run_init os_ok (start [''cli-standard-kit'', ''demo''] ''/home/u'')))"
proof -
  note t1 = only_missing_argument_rejected [of "[''cli-standard-kit'']" os_ok "''/home/u''"]
  note t2 = only_missing_argument_rejected
    [of "[''cli-standard-kit'', ''demo'', ''extra'']" os_ok "''/home/u''"]
  have a: "length [''cli-standard-kit''] < 2"
    and b: "2 \<le> length [''cli-standard-kit'', ''demo'', ''extra'']"
    by simp_all
  have k: "take 2 [''cli-standard-kit'', ''demo'', ''extra''] = [''cli-standard-kit'', ''demo'']"
    by simp
  from t1 a have c: "fst (run_init os_ok (start [''cli-standard-kit''] ''/home/u'')) = Inl (SystemExit 1)"
    and d: "trace (snd (run_init os_ok (start [''cli-standard-kit''] ''/home/u''))) = [Print usage_msg]"
    by blast+
  from t2 b have e: "fst (run_init os_ok (start [''cli-standard-kit'', ''demo'', ''extra''] ''/home/u'')) \<noteq>
        Inl (SystemExit 1)"
    and f: "fst (run_init os_ok (start [''cli-standard-kit'', ''demo'', ''extra''] ''/home/u'')) =
        fst (run_init os_ok (start (take 2 [''cli-standard-kit'', ''demo'', ''extra'']) ''/home/u''))"
    and g: "trace (snd (run_init os_ok (start [''cli-standard-kit'', ''demo'', ''extra''] ''/home/u''))) =
        trace (snd (run_init os_ok (start (take 2 [''cli-standard-kit'', ''demo'', ''extra'']) ''/home/u'')))"
    by blast+
  from a c d b e f [unfolded k] g [unfolded k] show ?thesis
    by (intro conjI)
qed

text \<open>
  C8 as stated fails for two positional arguments: the run is not rejected, it performs the
  whole script for the project name \<^verbatim>\<open>demo\<close> and never prints the usage line.
\<close>

theorem extra_argument_is_processed:
  "length [''cli-standard-kit'', ''demo'', ''extra''] = 3
   \<and> fst (run_init os_ok (start [''cli-standard-kit'', ''demo'', ''extra''] ''/home/u'')) = Inr ()
   \<and> trace (snd (run_init os_ok (start [''cli-standard-kit'', ''demo'', ''extra''] ''/home/u''))) =
       script ''demo'' ''/home/u'' ''/home/u/demo''
   \<and> Print usage_msg \<notin> set (script ''demo'' ''/home/u'' ''/home/u/demo'')"
  by (simp add: extra_argument_run) (simp add: script_def msg_defs)

text \<open>
  C9. An empty project name is not a missing one. The run is not a usage error and does
  not print the usage line: it prints the two status lines and runs the cookiecutter
  command, whose arguments give both template variables the empty value, and when that
  command succeeds the next action is \<^verbatim>\<open>os.chdir('')\<close>.
\<close>

theorem empty_name_is_processed:
  assumes "run_init w (start [prog, []] d0) = (r, s)"
  shows "r \<noteq> Inl (SystemExit 1) \<and> Print usage_msg \<notin> set (trace s)
       \<and> take 3 (trace s) =
           [Print (creating_msg []), Print (icon_run @ '' '' @ cookiecutter_cmd []),
            Shell d0 (cookiecutter_cmd [])]
       \<and> shell_words (cookiecutter_cmd []) =
           Reads [''cookiecutter'', ''gh:c3nk/cookiecutter-cli-standard-kit'', ''--no-input'',
                 ''project_name='', ''project_slug='']
       \<and> (returncode w (take 2 (trace s)) d0 (cookiecutter_cmd []) = 0 \<longrightarrow>
             3 < length (trace s) \<and> trace s ! 3 = Chdir d0 [])"
proof -
  have l: "2 \<le> length [prog, []]" and n: "[prog, []] ! 1 = []"
    by simp_all
  note u = no_usage_with_argument [OF l assms]
  from l assms have "take 3 (trace s) =
           [Print (creating_msg []), Print (icon_run @ '' '' @ cookiecutter_cmd []),
            Shell d0 (cookiecutter_cmd [])]
       \<and> (returncode w (take 2 (trace s)) d0 (cookiecutter_cmd []) = 0 \<longrightarrow>
             3 < length (trace s) \<and> trace s ! 3 = Chdir d0 [])"
    by (cases rule: run_init_cases) (simp_all add: script_def)
  with u empty_name_words show ?thesis by blast
qed

theorem empty_name_is_processed_witness:
  "run_init os_ok (start [''cli-standard-kit'', []] ''/home/u'') =
     (Inl (OSError []),
      \<lparr>argv = [''cli-standard-kit'', []], cwd = ''/home/u'',
        trace = take 4 (script [] ''/home/u'' ''/home/u'')\<rparr>)
   \<and> returncode os_ok (take 2 (take 4 (script [] ''/home/u'' ''/home/u''))) ''/home/u''
        (cookiecutter_cmd []) = 0
   \<and> take 4 (script [] ''/home/u'' ''/home/u'') ! 3 = Chdir ''/home/u'' []
   \<and> Print usage_msg \<notin> set (take 4 (script [] ''/home/u'' ''/home/u''))"
proof -
  note t = empty_name_is_processed [OF empty_name_run]
  have a: "returncode os_ok (take 2 (take 4 (script [] ''/home/u'' ''/home/u''))) ''/home/u''
        (cookiecutter_cmd []) = 0"
    by (simp add: os_ok_def)
  from t a have b: "take 4 (script [] ''/home/u'' ''/home/u'') ! 3 = Chdir ''/home/u'' []"
    by simp
  from t have c: "Print usage_msg \<notin> set (take 4 (script [] ''/home/u'' ''/home/u''))"
    by simp
  from empty_name_run a b c show ?thesis by (intro conjI)
qed

text \<open>
  C10. The project name is put between single quotes without escaping. For the name
  \<^verbatim>\<open>x' -f 'y\<close> the command that is issued no longer holds the name as one quoted
  argument: the shell gives cookiecutter the arguments \<^verbatim>\<open>project_name=x\<close>, \<^verbatim>\<open>-f\<close>,
  \<^verbatim>\<open>y\<close>, \<^verbatim>\<open>project_slug=x\<close>, \<^verbatim>\<open>-f\<close>, \<^verbatim>\<open>y\<close>, among them an option the name
  brought in.
\<close>

theorem quote_in_name_injects_arguments:
  "Shell ''/home/u'' (cookiecutter_cmd (''x'' @ [sq] @ '' -f '' @ [sq] @ ''y''))
     \<in> set (trace (snd (run_init os_ok
          (start [''cli-standard-kit'', ''x'' @ [sq] @ '' -f '' @ [sq] @ ''y''] ''/home/u''))))
   \<and> shell_words (cookiecutter_cmd (''x'' @ [sq] @ '' -f '' @ [sq] @ ''y'')) =
       Reads [''cookiecutter'', ''gh:c3nk/cookiecutter-cli-standard-kit'', ''--no-input'',
             ''project_name=x'', ''-f'', ''y'', ''project_slug=x'', ''-f'', ''y'']
   \<and> shell_words (cookiecutter_cmd (''x'' @ [sq] @ '' -f '' @ [sq] @ ''y'')) \<noteq>
       Reads (spec_cookiecutter_argv (''x'' @ [sq] @ '' -f '' @ [sq] @ ''y''))"
proof (intro conjI)
  show "Shell ''/home/u'' (cookiecutter_cmd (''x'' @ [sq] @ '' -f '' @ [sq] @ ''y''))
     \<in> set (trace (snd (run_init os_ok
          (start [''cli-standard-kit'', ''x'' @ [sq] @ '' -f '' @ [sq] @ ''y''] ''/home/u''))))"
    by (simp add: run_init_def py_defs start_def os_ok_def)
  show w: "shell_words (cookiecutter_cmd (''x'' @ [sq] @ '' -f '' @ [sq] @ ''y'')) =
       Reads [''cookiecutter'', ''gh:c3nk/cookiecutter-cli-standard-kit'', ''--no-input'',
             ''project_name=x'', ''-f'', ''y'', ''project_slug=x'', ''-f'', ''y'']"
    by (simp add: shell_words_def shell_commands_def cookiecutter_cmd_def sh_special_def)
  show "shell_words (cookiecutter_cmd (''x'' @ [sq] @ '' -f '' @ [sq] @ ''y'')) \<noteq>
       Reads (spec_cookiecutter_argv (''x'' @ [sq] @ '' -f '' @ [sq] @ ''y''))"
    unfolding w by (simp add: spec_cookiecutter_argv_def)
qed

end
